theory Spec2Isabelle
  imports Main
begin

section \<open>JavaScript values\<close>

text \<open>
  The client hook receives whatever value was thrown, so the model needs the whole
  universe of JavaScript values, not only \<open>Error\<close> instances. Primitive payloads
  (numbers, strings, symbols) are never inspected by the code; they are carried through
  unchanged, so numbers are represented by integers and strings by HOL strings.

  An object is its table of own properties (the first binding of a name is the property)
  together with its prototype, which is \<open>JNull\<close> at the end of the chain. A property is
  either a data property holding a value, or an accessor property, represented by the
  completion of its getter when it is called on this object: \<open>Inr v\<close> when the getter
  returns \<open>v\<close> (an accessor without getter returns \<open>undefined\<close>), \<open>Inl x\<close> when it
  throws \<open>x\<close>. A live proxy reads like an object whose properties are accessors (the
  completion of its \<open>get\<close> trap). A revoked proxy is a value of its own: it is an
  object, not nullish, and every read of a property of it is refused by the language.
  What else a getter does (its own effects, or running forever) is not represented.
\<close>

datatype jsval =
    JUndefined
  | JNull
  | JBool bool
  | JNum int
  | JBigInt int
  | JStr string
  | JSymbol string
  | JObj "(string \<times> jsprop) list" jsval
  | JRevokedProxy
and jsprop =
    DataProp jsval
  | AccessorProp "jsval + jsval"

text \<open>
  An abrupt completion is either the \<open>TypeError\<close> that the language raises when a
  property of \<open>null\<close>, of \<open>undefined\<close> or of a revoked proxy is read, or a value
  thrown by foreign code (a getter).
\<close>

datatype abrupt = TypeError | Thrown jsval

fun is_nullish :: "jsval \<Rightarrow> bool" where
  "is_nullish JUndefined = True"
| "is_nullish JNull = True"
| "is_nullish _ = False"

fun is_object :: "jsval \<Rightarrow> bool" where
  "is_object (JObj ps proto) = True"
| "is_object JRevokedProxy = True"
| "is_object _ = False"

fun is_string :: "jsval \<Rightarrow> bool" where
  "is_string (JStr s) = True"
| "is_string _ = False"

text \<open>\<open>ToBoolean v\<close> is false: the values that \<open>||\<close> would replace by its right operand.\<close>

fun is_falsy :: "jsval \<Rightarrow> bool" where
  "is_falsy JUndefined = True"
| "is_falsy JNull = True"
| "is_falsy (JBool b) = (\<not> b)"
| "is_falsy (JNum n) = (n = 0)"
| "is_falsy (JBigInt n) = (n = 0)"
| "is_falsy (JStr s) = (s = [])"
| "is_falsy _ = False"

subsection \<open>Reading a property\<close>

text \<open>
  The internal method \<open>[[Get]]\<close>. On an ordinary object it is \<open>OrdinaryGet\<close> of the
  language: take the own property if there is one (the value of a data property, the
  completion of the getter of an accessor property), else ask the prototype; at the end
  of the chain the result is \<open>undefined\<close>. On a revoked proxy, reached directly or as a
  prototype, it raises a \<open>TypeError\<close> before any getter runs.
\<close>

fun ordinary_get :: "jsval \<Rightarrow> string \<Rightarrow> abrupt + jsval" where
  "ordinary_get (JObj ps proto) k =
     (case map_of ps k of
        None \<Rightarrow> ordinary_get proto k
      | Some (DataProp v) \<Rightarrow> Inr v
      | Some (AccessorProp g) \<Rightarrow> (case g of Inl x \<Rightarrow> Inl (Thrown x) | Inr v \<Rightarrow> Inr v))"
| "ordinary_get JRevokedProxy k = Inl TypeError"
| "ordinary_get _ k = Inr JUndefined"

text \<open>
  The member expression \<open>v.code\<close>. On \<open>null\<close> and \<open>undefined\<close> it raises a
  \<open>TypeError\<close>. On an object it is \<open>[[Get]]\<close>. On any other primitive the lookup
  goes to the prototype of the wrapper (\<open>String.prototype\<close>, \<open>Number.prototype\<close>, ...);
  the standard prototypes define no property \<open>code\<close>, so the result is \<open>undefined\<close>.
\<close>

definition get_code :: "jsval \<Rightarrow> abrupt + jsval" where
  "get_code v =
     (if is_nullish v then Inl TypeError
      else if is_object v then ordinary_get v ''code''
      else Inr JUndefined)"

text \<open>The optional chain \<open>v?.code\<close>: \<open>undefined\<close> on a nullish base, else \<open>v.code\<close>.\<close>

definition optional_code :: "jsval \<Rightarrow> abrupt + jsval" where
  "optional_code v = (if is_nullish v then Inr JUndefined else get_code v)"

text \<open>\<open>a ?? b\<close> for a right operand without effects (here a string literal).\<close>

definition nullish_coalescing :: "jsval \<Rightarrow> jsval \<Rightarrow> jsval" where
  "nullish_coalescing a b = (if is_nullish a then b else a)"

section \<open>The client error hook\<close>

text \<open>
  \<^verbatim>\<open>
  export const handleError = ({ error, event }) => {
      console.error('Client error:', error);
      return {
          message: 'An unexpected error occurred.',
          code: error?.code ?? 'UNKNOWN'
      };
  };
  \<close>
  The framework calls the hook with a plain object that it has built itself; the
  parameter pattern reads its two data properties \<open>error\<close> and \<open>event\<close>, which is the
  record \<open>handle_input\<close>. The console is the list of entries written so far, each entry
  the list of arguments of one call of \<open>console.error\<close>, which stores its arguments
  and does not throw. The hook returns its completion
  (the record, or the exception that leaves it) together with the console, which has
  been written before \<open>code\<close> is read.
\<close>

record handle_input =
  error :: jsval
  event :: jsval

record app_error =
  message :: jsval
  code :: jsval

type_synonym console = "jsval list list"

definition console_error :: "jsval list \<Rightarrow> console \<Rightarrow> console" where
  "console_error args con = con @ [args]"

definition handleError :: "handle_input \<Rightarrow> console \<Rightarrow> (abrupt + app_error) \<times> console" where
  "handleError inp con =
     (let con' = console_error [JStr ''Client error:'', error inp] con in
      case optional_code (error inp) of
        Inl x \<Rightarrow> (Inl x, con')
      | Inr c \<Rightarrow>
          (Inr \<lparr>message = JStr ''An unexpected error occurred.'',
                code = nullish_coalescing c (JStr ''UNKNOWN'')\<rparr>,
           con'))"

text \<open>The record a call returned, if it returned one, and its two fields.\<close>

definition returned :: "(abrupt + app_error) \<times> console \<Rightarrow> app_error option" where
  "returned res = (case fst res of Inl x \<Rightarrow> None | Inr r \<Rightarrow> Some r)"

definition returned_code :: "(abrupt + app_error) \<times> console \<Rightarrow> jsval option" where
  "returned_code res = map_option code (returned res)"

definition returned_message :: "(abrupt + app_error) \<times> console \<Rightarrow> jsval option" where
  "returned_message res = map_option message (returned res)"

subsection \<open>What an error value has as an attribute\<close>

text \<open>
  The vocabulary of the specification: an error object has an attribute when the
  property is found on the object or along its prototype chain (as the \<open>in\<close> operator
  tells); the attribute is set to the value of the data property, or to what its getter
  returns. Looking the attribute up raises when its getter throws, and when the search
  comes to a revoked proxy, which refuses it. Values that are not objects have no
  attributes.
\<close>

datatype attr = Absent | Value jsval | Raises abrupt

fun attribute :: "jsval \<Rightarrow> string \<Rightarrow> attr" where
  "attribute (JObj ps proto) k =
     (case map_of ps k of
        None \<Rightarrow> attribute proto k
      | Some (DataProp v) \<Rightarrow> Value v
      | Some (AccessorProp g) \<Rightarrow> (case g of Inl x \<Rightarrow> Raises (Thrown x) | Inr v \<Rightarrow> Value v))"
| "attribute JRevokedProxy k = Raises TypeError"
| "attribute _ k = Absent"

definition code_read_throws :: "jsval \<Rightarrow> bool" where
  "code_read_throws e = (case attribute e ''code'' of Raises x \<Rightarrow> True | _ \<Rightarrow> False)"

text \<open>Some error values as they occur in a browser.\<close>

definition object_prototype :: jsval where
  "object_prototype = JObj [] JNull"

definition error_prototype :: jsval where
  "error_prototype =
     JObj [(''name'', DataProp (JStr ''Error'')), (''message'', DataProp (JStr ''''))]
       object_prototype"

definition plain_error :: jsval where
  "plain_error = JObj [(''message'', DataProp (JStr ''boom''))] error_prototype"

definition coded_error :: "jsval \<Rightarrow> jsval" where
  "coded_error c =
     JObj [(''message'', DataProp (JStr ''boom'')), (''code'', DataProp c)] error_prototype"

text \<open>
  A \<open>DOMException\<close>: its legacy \<open>code\<close> is a number, delivered by a getter on the
  prototype.
\<close>

definition dom_exception :: "int \<Rightarrow> jsval" where
  "dom_exception n =
     JObj [(''message'', DataProp (JStr ''not found''))]
       (JObj [(''code'', AccessorProp (Inr (JNum n)))] error_prototype)"

definition booby_trapped :: jsval where
  "booby_trapped = JObj [(''code'', AccessorProp (Inl (JStr ''trap'')))] object_prototype"

text \<open>An error object that inherits from a proxy which has been revoked since.\<close>

definition orphaned_error :: jsval where
  "orphaned_error = JObj [(''message'', DataProp (JStr ''boom''))] JRevokedProxy"

section \<open>The service worker\<close>

text \<open>
  \<^verbatim>\<open>
  self.addEventListener('install', () => { self.skipWaiting(); });
  self.addEventListener('activate', () => { self.clients.claim(); });
  \<close>
  The global scope of the worker is the table of registered listeners and the trace of
  the lifecycle actions requested from the browser so far.
\<close>

datatype sw_call = SkipWaiting | ClientsClaim

datatype listener = InstallListener | ActivateListener

record sw_scope =
  listeners :: "(string \<times> listener) list"
  calls :: "sw_call list"

definition skipWaiting :: "sw_scope \<Rightarrow> sw_scope" where
  "skipWaiting s = s\<lparr>calls := calls s @ [SkipWaiting]\<rparr>"

definition clients_claim :: "sw_scope \<Rightarrow> sw_scope" where
  "clients_claim s = s\<lparr>calls := calls s @ [ClientsClaim]\<rparr>"

fun run_listener :: "listener \<Rightarrow> sw_scope \<Rightarrow> sw_scope" where
  "run_listener InstallListener s = skipWaiting s"
| "run_listener ActivateListener s = clients_claim s"

definition addEventListener :: "string \<Rightarrow> listener \<Rightarrow> sw_scope \<Rightarrow> sw_scope" where
  "addEventListener ty l s = s\<lparr>listeners := listeners s @ [(ty, l)]\<rparr>"

text \<open>The script: its two top-level statements, in order.\<close>

definition service_worker :: "sw_scope \<Rightarrow> sw_scope" where
  "service_worker s =
     addEventListener ''activate'' ActivateListener
       (addEventListener ''install'' InstallListener s)"

text \<open>Dispatching an event runs the listeners registered for its type, in order.\<close>

definition dispatch :: "string \<Rightarrow> sw_scope \<Rightarrow> sw_scope" where
  "dispatch ty s = fold run_listener (map snd (filter (\<lambda>tl. fst tl = ty) (listeners s))) s"

section \<open>Reading \<open>code\<close> in terms of the attribute\<close>

lemma ordinary_get_attribute:
  "ordinary_get e k =
     (case attribute e k of
        Absent \<Rightarrow> Inr JUndefined
      | Value v \<Rightarrow> Inr v
      | Raises x \<Rightarrow> Inl x)"
  by (induction e k rule: ordinary_get.induct)
     (simp_all split: option.splits jsprop.splits sum.splits)

lemma attribute_not_object: "\<not> is_object e \<Longrightarrow> attribute e k = Absent"
  by (cases e) simp_all

lemma optional_code_attribute:
  "optional_code e =
     (case attribute e ''code'' of
        Absent \<Rightarrow> Inr JUndefined
      | Value v \<Rightarrow> Inr v
      | Raises x \<Rightarrow> Inl x)"
proof (cases "is_object e")
  case True
  then have "\<not> is_nullish e" by (cases e) simp_all
  with True show ?thesis
    by (simp add: optional_code_def get_code_def ordinary_get_attribute)
next
  case False
  then show ?thesis
    by (simp add: optional_code_def get_code_def attribute_not_object)
qed

lemma handleError_attribute:
  "fst (handleError inp con) =
     (case attribute (error inp) ''code'' of
        Absent \<Rightarrow>
          Inr \<lparr>message = JStr ''An unexpected error occurred.'', code = JStr ''UNKNOWN''\<rparr>
      | Value v \<Rightarrow>
          Inr \<lparr>message = JStr ''An unexpected error occurred.'',
               code = (if is_nullish v then JStr ''UNKNOWN'' else v)\<rparr>
      | Raises x \<Rightarrow> Inl x)"
  by (simp add: handleError_def Let_def optional_code_attribute nullish_coalescing_def
           split: attr.splits)

lemma returned_code_attribute:
  "returned_code (handleError inp con) =
     (case attribute (error inp) ''code'' of
        Absent \<Rightarrow> Some (JStr ''UNKNOWN'')
      | Value v \<Rightarrow> Some (if is_nullish v then JStr ''UNKNOWN'' else v)
      | Raises x \<Rightarrow> None)"
  by (simp add: returned_code_def returned_def handleError_attribute split: attr.splits)

lemmas hook_defs =
  handleError_def console_error_def optional_code_def get_code_def nullish_coalescing_def
  returned_def returned_code_def returned_message_def Let_def

lemmas example_defs =
  code_read_throws_def object_prototype_def error_prototype_def
  plain_error_def coded_error_def dom_exception_def booby_trapped_def orphaned_error_def

section \<open>The code of the returned record\<close>

text \<open>
  An attribute may be set to \<open>null\<close> (or \<open>undefined\<close>). The operator \<open>??\<close> then takes
  its right operand, so the record does not carry the attribute's value: for the error
  \<open>{message: 'boom', code: null}\<close> the hook returns the code \<open>'UNKNOWN'\<close>, not
  \<open>null\<close>.
\<close>

theorem handleError_code_null_counterexample:
  "attribute (coded_error JNull) ''code'' = Value JNull \<and>
   returned_code (handleError \<lparr>error = coded_error JNull, event = JUndefined\<rparr> [])
     = Some (JStr ''UNKNOWN'') \<and>
   returned_code (handleError \<lparr>error = coded_error JNull, event = JUndefined\<rparr> [])
     \<noteq> Some JNull"
  by (simp add: hook_defs example_defs)

text \<open>
  Claim C1, as the code has it: for every error object that has a \<open>code\<close> attribute
  set to a value \<open>V\<close> other than \<open>null\<close> and \<open>undefined\<close>, \<open>handleError\<close> returns a
  record whose \<open>code\<close> field equals \<open>V\<close>.
\<close>

theorem handleError_code_present:
  "attribute e ''code'' = Value V \<Longrightarrow> \<not> is_nullish V \<Longrightarrow>
   returned_code (handleError \<lparr>error = e, event = ev\<rparr> con) = Some V"
  by (simp add: returned_code_attribute)

theorem handleError_code_present_witness:
  "attribute (coded_error (JStr ''E_FAIL'')) ''code'' = Value (JStr ''E_FAIL'') \<and>
   \<not> is_nullish (JStr ''E_FAIL'') \<and>
   returned_code (handleError \<lparr>error = coded_error (JStr ''E_FAIL''), event = JUndefined\<rparr> [])
     = Some (JStr ''E_FAIL'')"
proof -
  have a: "attribute (coded_error (JStr ''E_FAIL'')) ''code'' = Value (JStr ''E_FAIL'')"
    by (simp add: example_defs)
  have b: "\<not> is_nullish (JStr ''E_FAIL'')"
    by simp
  from handleError_code_present [OF a b, of JUndefined "[]"] a b show ?thesis
    by simp
qed

text \<open>
  Claim C2: for every error object lacking a \<open>code\<close> attribute, \<open>handleError\<close> returns a
  record whose \<open>code\<close> field is the string \<open>'UNKNOWN'\<close>.
\<close>

theorem handleError_code_absent:
  "is_object e \<Longrightarrow> attribute e ''code'' = Absent \<Longrightarrow>
   returned_code (handleError \<lparr>error = e, event = ev\<rparr> con) = Some (JStr ''UNKNOWN'')"
  by (simp add: returned_code_attribute)

theorem handleError_code_absent_witness:
  "is_object plain_error \<and> attribute plain_error ''code'' = Absent \<and>
   returned_code (handleError \<lparr>error = plain_error, event = JUndefined\<rparr> [])
     = Some (JStr ''UNKNOWN'')"
proof -
  have a: "is_object plain_error"
    by (simp add: example_defs)
  have b: "attribute plain_error ''code'' = Absent"
    by (simp add: example_defs)
  from handleError_code_absent [OF a b, of JUndefined "[]"] a b show ?thesis
    by simp
qed

text \<open>
  The code of a \<open>DOMException\<close> is a number, and the hook hands it on as it is: the
  \<open>code\<close> field of the record is then not a string.
\<close>

theorem handleError_numeric_code_counterexample:
  "returned_code (handleError \<lparr>error = dom_exception 8, event = JUndefined\<rparr> [])
     = Some (JNum 8) \<and>
   \<not> is_string (JNum 8)"
  by (simp add: hook_defs example_defs)

text \<open>
  Claim C5, as the code has it: the \<open>code\<close> field of the returned record is either the
  fallback string \<open>'UNKNOWN'\<close> or the value of the error's \<open>code\<close> attribute, unchanged
  and then neither \<open>null\<close> nor \<open>undefined\<close>; it is a string whenever that attribute is
  absent or holds a string, \<open>null\<close> or \<open>undefined\<close>.
\<close>

theorem handleError_code_string:
  "(returned_code (handleError \<lparr>error = e, event = ev\<rparr> con) = Some c \<longrightarrow>
      c = JStr ''UNKNOWN'' \<or> (attribute e ''code'' = Value c \<and> \<not> is_nullish c)) \<and>
   (attribute e ''code'' = Absent \<or>
    attribute e ''code'' = Value V \<and> (is_nullish V \<or> is_string V) \<longrightarrow>
      (\<exists>s. returned_code (handleError \<lparr>error = e, event = ev\<rparr> con) = Some (JStr s)))"
proof (intro conjI impI)
  assume "returned_code (handleError \<lparr>error = e, event = ev\<rparr> con) = Some c"
  then show "c = JStr ''UNKNOWN'' \<or> (attribute e ''code'' = Value c \<and> \<not> is_nullish c)"
    by (auto simp: returned_code_attribute split: attr.splits if_splits)
next
  assume "attribute e ''code'' = Absent \<or>
          attribute e ''code'' = Value V \<and> (is_nullish V \<or> is_string V)"
  then show "\<exists>s. returned_code (handleError \<lparr>error = e, event = ev\<rparr> con) = Some (JStr s)"
    by (cases V) (auto simp: returned_code_attribute)
qed

theorem handleError_code_string_witness:
  "returned_code (handleError \<lparr>error = coded_error (JStr ''ENOENT''), event = JUndefined\<rparr> [])
     = Some (JStr ''ENOENT'') \<and>
   attribute (coded_error (JStr ''ENOENT'')) ''code'' = Value (JStr ''ENOENT'') \<and>
   \<not> is_nullish (JStr ''ENOENT'') \<and> is_string (JStr ''ENOENT'')"
  using handleError_code_string
    [of "coded_error (JStr ''ENOENT'')" JUndefined "[]" "JStr ''ENOENT''" "JStr ''ENOENT''"]
  by (simp add: hook_defs example_defs)

text \<open>
  Claim C10: a \<open>code\<close> attribute whose value is falsy but neither \<open>null\<close> nor
  \<open>undefined\<close> (the empty string, \<open>0\<close>, \<open>false\<close>) is returned unchanged and not
  replaced by the fallback; and when the returned code is the fallback string, the
  attribute was absent or set to \<open>null\<close> or \<open>undefined\<close> (or was that very string).
\<close>

theorem handleError_falsy_code_kept:
  "(attribute e ''code'' = Value V \<and> is_falsy V \<and> \<not> is_nullish V \<longrightarrow>
      returned_code (handleError \<lparr>error = e, event = ev\<rparr> con) = Some V \<and>
      V \<noteq> JStr ''UNKNOWN'') \<and>
   (returned_code (handleError \<lparr>error = e', event = ev\<rparr> con) = Some (JStr ''UNKNOWN'') \<longrightarrow>
      attribute e' ''code'' = Absent \<or> attribute e' ''code'' = Value JUndefined \<or>
      attribute e' ''code'' = Value JNull \<or> attribute e' ''code'' = Value (JStr ''UNKNOWN''))"
proof -
  have kept: "returned_code (handleError \<lparr>error = e, event = ev\<rparr> con) = Some V \<and>
      V \<noteq> JStr ''UNKNOWN''"
    if "attribute e ''code'' = Value V \<and> is_falsy V \<and> \<not> is_nullish V"
    using that by (auto simp: returned_code_attribute)
  have only: "attribute e' ''code'' = Absent \<or> attribute e' ''code'' = Value JUndefined \<or>
      attribute e' ''code'' = Value JNull \<or> attribute e' ''code'' = Value (JStr ''UNKNOWN'')"
    if h: "returned_code (handleError \<lparr>error = e', event = ev\<rparr> con) = Some (JStr ''UNKNOWN'')"
  proof (cases "attribute e' ''code''")
    case Absent
    then show ?thesis by simp
  next
    case (Value v)
    with h show ?thesis
      by (cases v) (simp_all add: returned_code_attribute)
  next
    case (Raises x)
    with h show ?thesis
      by (simp add: returned_code_attribute)
  qed
  from kept only show ?thesis
    by blast
qed

theorem handleError_falsy_code_kept_witness:
  "attribute (coded_error (JStr [])) ''code'' = Value (JStr []) \<and>
   is_falsy (JStr []) \<and> \<not> is_nullish (JStr []) \<and>
   returned_code (handleError \<lparr>error = coded_error (JStr []), event = JUndefined\<rparr> [])
     = Some (JStr []) \<and>
   returned_code (handleError \<lparr>error = coded_error JUndefined, event = JUndefined\<rparr> [])
     = Some (JStr ''UNKNOWN'') \<and>
   attribute (coded_error JUndefined) ''code'' = Value JUndefined"
  using handleError_falsy_code_kept
    [of "coded_error (JStr [])" "JStr []" JUndefined "[]" "coded_error JUndefined"]
  by (simp add: hook_defs example_defs)

section \<open>The message, the event and completion\<close>

text \<open>
  Claim C3: whatever the error value and the event descriptor, the \<open>message\<close> field of the
  record returned by \<open>handleError\<close> is the fixed string \<open>'An unexpected error occurred.'\<close>.
  A record is returned in every case but one, the error whose \<open>code\<close> getter throws.
\<close>

theorem handleError_message:
  "returned_message (handleError inp con) =
     (if code_read_throws (error inp) then None
      else Some (JStr ''An unexpected error occurred.''))"
  by (simp add: returned_message_def returned_def handleError_attribute code_read_throws_def
           split: attr.splits)

theorem handleError_message_witness:
  "\<not> code_read_throws (dom_exception 8) \<and>
   returned_message (handleError \<lparr>error = dom_exception 8, event = JStr ''navigation''\<rparr> [])
     = Some (JStr ''An unexpected error occurred.'')"
  using handleError_message [of "\<lparr>error = dom_exception 8, event = JStr ''navigation''\<rparr>" "[]"]
  by (simp add: example_defs)

text \<open>
  Reading \<open>code\<close> runs the getter of an accessor property, and the hook has no handler
  around it: when the getter throws, the exception leaves \<open>handleError\<close> and no record is
  returned.
\<close>

theorem handleError_throwing_getter_counterexample:
  "fst (handleError \<lparr>error = booby_trapped, event = JUndefined\<rparr> [])
     = Inl (Thrown (JStr ''trap'')) \<and>
   returned (handleError \<lparr>error = booby_trapped, event = JUndefined\<rparr> []) = None"
  by (simp add: hook_defs example_defs)

text \<open>
  The optional chain guards against a nullish error only. A revoked proxy is not
  nullish, so its \<open>code\<close> is read, and the \<open>TypeError\<close> of the language leaves the hook;
  likewise for an error object that has a revoked proxy on its prototype chain.
\<close>

lemma handleError_revoked_proxy:
  "fst (handleError \<lparr>error = JRevokedProxy, event = ev\<rparr> con) = Inl TypeError \<and>
   fst (handleError \<lparr>error = orphaned_error, event = ev\<rparr> con) = Inl TypeError"
  by (simp add: hook_defs example_defs)

text \<open>
  Claim C4, as the code has it: for every input whose error value does not raise when its
  \<open>code\<close> attribute is read (\<open>null\<close>, \<open>undefined\<close>, every primitive, every object on
  which \<open>code\<close> is found absent, as a data property or as a getter that returns),
  \<open>handleError\<close> runs to completion and returns a record of a message and a code, without
  raising an exception.
\<close>

theorem handleError_completes:
  "\<not> code_read_throws (error inp) \<Longrightarrow>
   \<exists>c. fst (handleError inp con) =
     Inr \<lparr>message = JStr ''An unexpected error occurred.'', code = c\<rparr>"
  by (simp add: handleError_attribute code_read_throws_def split: attr.splits)

theorem handleError_completes_witness:
  "\<not> code_read_throws plain_error \<and>
   (\<exists>c. fst (handleError \<lparr>error = plain_error, event = JUndefined\<rparr> []) =
      Inr \<lparr>message = JStr ''An unexpected error occurred.'', code = c\<rparr>)"
proof -
  have a: "\<not> code_read_throws (error \<lparr>error = plain_error, event = JUndefined\<rparr>)"
    by (simp add: example_defs)
  from handleError_completes [OF a, of "[]"] a show ?thesis
    by simp
qed

text \<open>
  Claim C8: the result of \<open>handleError\<close> does not depend on the event descriptor. For one
  error value and two event descriptors the two calls complete alike and return equal
  records; the entry written to the console is the same as well, since only the error
  is logged.
\<close>

theorem handleError_ignores_event:
  "returned (handleError \<lparr>error = e, event = e1\<rparr> con) =
     returned (handleError \<lparr>error = e, event = e2\<rparr> con) \<and>
   handleError \<lparr>error = e, event = e1\<rparr> con = handleError \<lparr>error = e, event = e2\<rparr> con"
  by (simp add: handleError_def)

text \<open>
  Claim C9: when the error value itself is \<open>null\<close> or \<open>undefined\<close>, \<open>handleError\<close> returns
  the record with the fixed message and the code \<open>'UNKNOWN'\<close>; the plain member access
  \<open>error.code\<close> would raise a \<open>TypeError\<close> there, the optional chain does not.
\<close>

theorem handleError_nullish_error:
  "fst (handleError \<lparr>error = JNull, event = ev\<rparr> con) =
     Inr \<lparr>message = JStr ''An unexpected error occurred.'', code = JStr ''UNKNOWN''\<rparr> \<and>
   fst (handleError \<lparr>error = JUndefined, event = ev\<rparr> con) =
     Inr \<lparr>message = JStr ''An unexpected error occurred.'', code = JStr ''UNKNOWN''\<rparr> \<and>
   get_code JNull = Inl TypeError \<and> get_code JUndefined = Inl TypeError"
  by (simp add: handleError_def optional_code_def get_code_def nullish_coalescing_def Let_def)

section \<open>The lifecycle listeners\<close>

lemma service_worker_listeners:
  "listeners (service_worker \<lparr>listeners = [], calls = cs\<rparr>) =
     [(''install'', InstallListener), (''activate'', ActivateListener)]"
  by (simp add: service_worker_def addEventListener_def)

text \<open>
  Claim C6: every invocation of the install listener requests \<open>skipWaiting\<close> exactly once:
  the trace of requests grows by that one entry, and so does its number of
  \<open>skipWaiting\<close> entries; an install event dispatched to the worker after its script has
  run invokes the listener once.
\<close>

theorem install_skip_waiting_once:
  "calls (run_listener InstallListener s) = calls s @ [SkipWaiting] \<and>
   count_list (calls (run_listener InstallListener s)) SkipWaiting =
     count_list (calls s) SkipWaiting + 1 \<and>
   calls (dispatch ''install'' (service_worker \<lparr>listeners = [], calls = cs\<rparr>)) =
     cs @ [SkipWaiting]"
  by (simp add: skipWaiting_def dispatch_def service_worker_def addEventListener_def)

text \<open>
  Claim C7: every invocation of the activate listener requests \<open>clients.claim\<close> exactly
  once: the trace of requests grows by that one entry, and so does its number of
  \<open>clients.claim\<close> entries; an activate event dispatched to the worker after its script
  has run invokes the listener once.
\<close>

theorem activate_clients_claim_once:
  "calls (run_listener ActivateListener s) = calls s @ [ClientsClaim] \<and>
   count_list (calls (run_listener ActivateListener s)) ClientsClaim =
     count_list (calls s) ClientsClaim + 1 \<and>
   calls (dispatch ''activate'' (service_worker \<lparr>listeners = [], calls = cs\<rparr>)) =
     cs @ [ClientsClaim]"
  by (simp add: clients_claim_def dispatch_def service_worker_def addEventListener_def)

end
